theory Spec2Isabelle
  imports Complex_Main "HOL-Library.Log_Nat" "HOL-Library.AList"
begin

section \<open>Python values used by \<open>app.py\<close>\<close>

text \<open>
  A Python \<open>str\<close> is a sequence of Unicode code points; it is modelled as a list of
  natural numbers, and \<open>py_str\<close> turns an ASCII literal of the source into that form.
\<close>

type_synonym pystr = "nat list"

definition py_str :: "string \<Rightarrow> pystr" where
  "py_str s = map of_char s"

text \<open>
  A Python \<open>float\<close> is an IEEE 754 binary64 value: a finite rational, an infinity or a
  NaN. The two signed zeros are identified (they compare equal in Python and \<open>app.py\<close>
  never divides by a variable).
\<close>

datatype pyfloat = Fin rat | PInf | NInf | NaN

datatype py_exception =
    KeyError pystr
  | TypeError
  | ValueError
  | AttributeError
  | OverflowError
  | ZeroDivisionError
  | IndexError
  | JSONDecodeError
  | ServiceError pystr

subsection \<open>Rounding to binary64\<close>

text \<open>
  \<open>ilog2 x\<close> is the binary exponent of a positive rational:
  \<open>2 powi ilog2 x \<le> x < 2 powi (ilog2 x + 1)\<close>.
\<close>

definition ilog2 :: "rat \<Rightarrow> int" where
  "ilog2 x =
     (if 1 \<le> x then bitlen \<lfloor>x\<rfloor> - 1
      else let k = bitlen \<lfloor>1 / x\<rfloor>
           in if x = 2 powi (1 - k) then 1 - k else - k)"

definition round_half_even :: "rat \<Rightarrow> int" where
  "round_half_even x =
     (let n = \<lfloor>x\<rfloor>; r = x - of_int n
      in if r < 1 / 2 then n
         else if 1 / 2 < r then n + 1
         else if even n then n else n + 1)"

text \<open>
  Round to nearest, ties to even, with 53 significant bits, gradual underflow below
  \<open>2 ^ -1022\<close> (the spacing there is \<open>2 ^ -1074\<close>) and overflow to an infinity from
  \<open>2 ^ 1024\<close> on.
\<close>

definition round_double :: "rat \<Rightarrow> pyfloat" where
  "round_double x =
     (if x = 0 then Fin 0
      else let e = max (ilog2 \<bar>x\<bar>) (- 1022);
               q = 2 powi (e - 52);
               y = of_int (round_half_even (x / q)) * q
           in if 2 ^ 1024 \<le> \<bar>y\<bar> then (if 0 < x then PInf else NInf) else Fin y)"

text \<open>A decimal literal of the source denotes the nearest binary64 value.\<close>

definition float_lit :: "rat \<Rightarrow> pyfloat" where
  "float_lit x = round_double x"

definition is_double :: "rat \<Rightarrow> bool" where
  "is_double x \<longleftrightarrow> round_double x = Fin x"

subsection \<open>Float arithmetic\<close>

fun py_neg :: "pyfloat \<Rightarrow> pyfloat" where
  "py_neg (Fin a) = Fin (- a)"
| "py_neg PInf = NInf"
| "py_neg NInf = PInf"
| "py_neg NaN = NaN"

fun py_add :: "pyfloat \<Rightarrow> pyfloat \<Rightarrow> pyfloat" where
  "py_add (Fin a) (Fin b) = round_double (a + b)"
| "py_add NaN _ = NaN"
| "py_add _ NaN = NaN"
| "py_add PInf NInf = NaN"
| "py_add NInf PInf = NaN"
| "py_add PInf _ = PInf"
| "py_add NInf _ = NInf"
| "py_add (Fin a) PInf = PInf"
| "py_add (Fin a) NInf = NInf"

definition py_sub :: "pyfloat \<Rightarrow> pyfloat \<Rightarrow> pyfloat" where
  "py_sub a b = py_add a (py_neg b)"

definition signed_inf :: "bool \<Rightarrow> pyfloat" where
  "signed_inf positive = (if positive then PInf else NInf)"

fun py_mul :: "pyfloat \<Rightarrow> pyfloat \<Rightarrow> pyfloat" where
  "py_mul (Fin a) (Fin b) = round_double (a * b)"
| "py_mul NaN _ = NaN"
| "py_mul _ NaN = NaN"
| "py_mul PInf (Fin b) = (if b = 0 then NaN else signed_inf (0 < b))"
| "py_mul NInf (Fin b) = (if b = 0 then NaN else signed_inf (b < 0))"
| "py_mul (Fin a) PInf = (if a = 0 then NaN else signed_inf (0 < a))"
| "py_mul (Fin a) NInf = (if a = 0 then NaN else signed_inf (a < 0))"
| "py_mul PInf PInf = PInf"
| "py_mul PInf NInf = NInf"
| "py_mul NInf PInf = NInf"
| "py_mul NInf NInf = PInf"

text \<open>True division \<open>a / b\<close>; a zero divisor raises \<open>ZeroDivisionError\<close>.\<close>

fun py_truediv :: "pyfloat \<Rightarrow> pyfloat \<Rightarrow> py_exception + pyfloat" where
  "py_truediv (Fin a) (Fin b) =
     (if b = 0 then Inl ZeroDivisionError else Inr (round_double (a / b)))"
| "py_truediv PInf (Fin b) =
     (if b = 0 then Inl ZeroDivisionError else Inr (signed_inf (0 < b)))"
| "py_truediv NInf (Fin b) =
     (if b = 0 then Inl ZeroDivisionError else Inr (signed_inf (b < 0)))"
| "py_truediv NaN (Fin b) = (if b = 0 then Inl ZeroDivisionError else Inr NaN)"
| "py_truediv _ NaN = Inr NaN"
| "py_truediv (Fin a) _ = Inr (Fin 0)"
| "py_truediv _ _ = Inr NaN"

text \<open>The comparison \<open>a == b\<close> of two floats: a NaN equals nothing.\<close>

fun py_eq :: "pyfloat \<Rightarrow> pyfloat \<Rightarrow> bool" where
  "py_eq NaN _ = False"
| "py_eq _ NaN = False"
| "py_eq a b = (a = b)"

section \<open>The conversion engine: \<open>convert_units\<close>\<close>

text \<open>
  An entry of the \<open>conversions\<close> table is a float factor, or for \<open>Temperature\<close> a lambda.
\<close>

datatype table_entry = Factor pyfloat | Lambda "pyfloat \<Rightarrow> py_exception + pyfloat"

text \<open>Subscription \<open>d[k]\<close> of a dict: a missing key raises \<open>KeyError(k)\<close>.\<close>

definition getitem :: "(pystr \<rightharpoonup> 'v) \<Rightarrow> pystr \<Rightarrow> py_exception + 'v" where
  "getitem d k = (case d k of None \<Rightarrow> Inl (KeyError k) | Some v \<Rightarrow> Inr v)"

definition dict_of :: "(string \<times> 'v) list \<Rightarrow> (pystr \<rightharpoonup> 'v)" where
  "dict_of kvs = map_of (map (\<lambda>(k, v). (py_str k, v)) kvs)"

definition length_table :: "(string \<times> table_entry) list" where
  "length_table =
     [(''meters'', Factor (float_lit 1.0)),
      (''feet'', Factor (float_lit 0.3048)),
      (''inches'', Factor (float_lit 0.0254)),
      (''centimeters'', Factor (float_lit 0.01)),
      (''kilometers'', Factor (float_lit 1000.0)),
      (''miles'', Factor (float_lit 1609.34))]"

definition weight_table :: "(string \<times> table_entry) list" where
  "weight_table =
     [(''kilograms'', Factor (float_lit 1.0)),
      (''pounds'', Factor (float_lit 0.453592)),
      (''grams'', Factor (float_lit 0.001)),
      (''ounces'', Factor (float_lit 0.0283495))]"

definition temperature_table :: "(string \<times> table_entry) list" where
  "temperature_table =
     [(''Celsius'', Lambda (\<lambda>x. Inr x)),
      (''Fahrenheit'', Lambda (\<lambda>x.
         case py_truediv (py_mul x (Fin 9)) (Fin 5) of
           Inl e \<Rightarrow> Inl e
         | Inr y \<Rightarrow> Inr (py_add y (Fin 32)))),
      (''Kelvin'', Lambda (\<lambda>x. Inr (py_add x (float_lit 273.15))))]"

definition volume_table :: "(string \<times> table_entry) list" where
  "volume_table =
     [(''liters'', Factor (float_lit 1.0)),
      (''gallons'', Factor (float_lit 3.78541)),
      (''milliliters'', Factor (float_lit 0.001)),
      (''cubic feet'', Factor (float_lit 28.3168))]"

definition conversions :: "pystr \<rightharpoonup> (pystr \<rightharpoonup> table_entry)" where
  "conversions = dict_of
     [(''Length'', dict_of length_table),
      (''Weight'', dict_of weight_table),
      (''Temperature'', dict_of temperature_table),
      (''Volume'', dict_of volume_table)]"

text \<open>\<open>value * entry\<close> and \<open>to_base / entry\<close>: a lambda operand raises \<open>TypeError\<close>.\<close>

definition mul_entry :: "pyfloat \<Rightarrow> table_entry \<Rightarrow> py_exception + pyfloat" where
  "mul_entry v t = (case t of Factor f \<Rightarrow> Inr (py_mul v f) | Lambda _ \<Rightarrow> Inl TypeError)"

definition div_entry :: "pyfloat \<Rightarrow> table_entry \<Rightarrow> py_exception + pyfloat" where
  "div_entry v t = (case t of Factor f \<Rightarrow> py_truediv v f | Lambda _ \<Rightarrow> Inl TypeError)"

text \<open>Lines 58 to 63: the value in Celsius.\<close>

definition to_celsius :: "pyfloat \<Rightarrow> pystr \<Rightarrow> py_exception + pyfloat" where
  "to_celsius val from_unit =
     (if from_unit = py_str ''Fahrenheit'' then
        py_truediv (py_mul (py_sub val (Fin 32)) (Fin 5)) (Fin 9)
      else if from_unit = py_str ''Kelvin'' then Inr (py_sub val (float_lit 273.15))
      else Inr val)"

text \<open>Lines 64 to 69: from Celsius to the target scale.\<close>

definition from_celsius :: "pyfloat \<Rightarrow> pystr \<Rightarrow> py_exception + pyfloat" where
  "from_celsius celsius to_unit =
     (if to_unit = py_str ''Fahrenheit'' then
        (case py_truediv (py_mul celsius (Fin 9)) (Fin 5) of
           Inl e \<Rightarrow> Inl e
         | Inr y \<Rightarrow> Inr (py_add y (Fin 32)))
      else if to_unit = py_str ''Kelvin'' then Inr (py_add celsius (float_lit 273.15))
      else Inr celsius)"

definition convert_units ::
  "pyfloat \<Rightarrow> pystr \<Rightarrow> pystr \<Rightarrow> pystr \<Rightarrow> py_exception + pyfloat" where
  "convert_units val from_unit to_unit category =
     (if category = py_str ''Temperature'' then
        (case to_celsius val from_unit of
           Inl e \<Rightarrow> Inl e
         | Inr celsius \<Rightarrow> from_celsius celsius to_unit)
      else
        (case getitem conversions category of
           Inl e \<Rightarrow> Inl e
         | Inr table \<Rightarrow>
            (case getitem table from_unit of
               Inl e \<Rightarrow> Inl e
             | Inr f \<Rightarrow>
                (case mul_entry val f of
                   Inl e \<Rightarrow> Inl e
                 | Inr to_base \<Rightarrow>
                    (case getitem table to_unit of
                       Inl e \<Rightarrow> Inl e
                     | Inr t \<Rightarrow> div_entry to_base t)))))"

section \<open>String operations of the interpreter\<close>

text \<open>\<open>str.isspace\<close> for a single code point.\<close>

definition py_isspace :: "nat \<Rightarrow> bool" where
  "py_isspace c \<longleftrightarrow>
     (9 \<le> c \<and> c \<le> 13) \<or> (28 \<le> c \<and> c \<le> 32) \<or> c = 133 \<or> c = 160 \<or> c = 5760 \<or>
     (8192 \<le> c \<and> c \<le> 8202) \<or> c = 8232 \<or> c = 8233 \<or> c = 8239 \<or> c = 8287 \<or> c = 12288"

text \<open>\<open>s.strip()\<close> removes leading and trailing whitespace.\<close>

definition py_strip :: "pystr \<Rightarrow> pystr" where
  "py_strip s = rev (dropWhile py_isspace (rev (dropWhile py_isspace s)))"

fun startswith :: "pystr \<Rightarrow> pystr \<Rightarrow> bool" where
  "startswith s [] = True"
| "startswith [] (p # ps) = False"
| "startswith (c # cs) (p # ps) = (c = p \<and> startswith cs ps)"

text \<open>\<open>sub in s\<close>: \<open>sub\<close> occurs in \<open>s\<close> as a substring.\<close>

fun py_in :: "pystr \<Rightarrow> pystr \<Rightarrow> bool" where
  "py_in sub [] = (sub = [])"
| "py_in sub (c # cs) = (startswith (c # cs) sub \<or> py_in sub cs)"

text \<open>
  \<open>s.split(sep)\<close> for a non-empty separator cuts \<open>s\<close> at the non-overlapping
  occurrences of \<open>sep\<close>, found from the left. The scan keeps the piece read so far
  (reversed) and the number of characters of a matched separator still to skip.
\<close>

fun split_scan :: "pystr \<Rightarrow> pystr \<Rightarrow> nat \<Rightarrow> pystr \<Rightarrow> pystr list" where
  "split_scan sep piece skip [] = [rev piece]"
| "split_scan sep piece skip (c # cs) =
     (if 0 < skip then split_scan sep piece (skip - 1) cs
      else if startswith (c # cs) sep then rev piece # split_scan sep [] (length sep - 1) cs
      else split_scan sep (c # piece) 0 cs)"

definition py_split :: "pystr \<Rightarrow> pystr \<Rightarrow> py_exception + pystr list" where
  "py_split s sep = (if sep = [] then Inl ValueError else Inr (split_scan sep [] 0 s))"

text \<open>Indexing \<open>xs[i]\<close> with a non-negative constant: out of range raises \<open>IndexError\<close>.\<close>

definition list_index :: "'a list \<Rightarrow> nat \<Rightarrow> py_exception + 'a" where
  "list_index xs i = (if i < length xs then Inr (xs ! i) else Inl IndexError)"

section \<open>JSON values and \<open>json.loads\<close>\<close>

text \<open>
  The Python value of a JSON text. A JSON object becomes a \<open>dict\<close> with string keys,
  kept as an association list in insertion order with distinct keys.
\<close>

datatype json =
    JNull
  | JBool bool
  | JInt int
  | JFloat pyfloat
  | JStr pystr
  | JList "json list"
  | JDict "(pystr \<times> json) list"

datatype token =
    TLBrace | TRBrace | TLBrack | TRBrack | TColon | TComma | TVal json

definition is_digit :: "nat \<Rightarrow> bool" where
  "is_digit c \<longleftrightarrow> 48 \<le> c \<and> c \<le> 57"

definition digits_value :: "nat list \<Rightarrow> nat" where
  "digits_value ds = foldl (\<lambda>n c. 10 * n + (c - 48)) 0 ds"

text \<open>
  The exponent part \<open>[eE][+-]?[0-9]+\<close> of a number, if \<open>s\<close> is exactly one; the empty
  text is the exponent zero.
\<close>

definition exponent_part :: "nat list \<Rightarrow> int option" where
  "exponent_part s =
     (case s of
        [] \<Rightarrow> Some 0
      | c # r \<Rightarrow>
          if c = 101 \<or> c = 69 then
            (let (neg, ds) =
               (case r of
                  [] \<Rightarrow> (False, [])
                | d # r' \<Rightarrow> if d = 45 then (True, r') else if d = 43 then (False, r') else (False, r))
             in if ds \<noteq> [] \<and> list_all is_digit ds
                then Some (if neg then - int (digits_value ds) else int (digits_value ds))
                else None)
          else None)"

text \<open>
  A JSON number \<open>-?(0|[1-9][0-9]*)(\.[0-9]+)?([eE][+-]?[0-9]+)?\<close>: an \<open>int\<close> when it has
  neither fraction nor exponent, else the nearest \<open>float\<close>.
\<close>

definition json_number :: "nat list \<Rightarrow> json option" where
  "json_number w =
     (let (neg, u) = (case w of [] \<Rightarrow> (False, []) | c # r \<Rightarrow> if c = 45 then (True, r) else (False, w));
          ip = takeWhile is_digit u;
          r1 = dropWhile is_digit u
      in if ip = [] \<or> (1 < length ip \<and> hd ip = 48) then None
         else if r1 = [] then
           Some (JInt (if neg then - int (digits_value ip) else int (digits_value ip)))
         else
           (let (fp, r2) =
              (case r1 of
                 [] \<Rightarrow> ([], [])
               | c # r \<Rightarrow> if c = 46 then (takeWhile is_digit r, dropWhile is_digit r) else ([], r1))
            in if hd r1 = 46 \<and> fp = [] then None
               else
                 (case exponent_part r2 of
                    None \<Rightarrow> None
                  | Some ex \<Rightarrow>
                      (let m = of_nat (digits_value (ip @ fp)) * 10 powi (ex - int (length fp))
                       in Some (JFloat (round_double (if neg then - m else m)))))))"

text \<open>A maximal run of letters, digits, signs and dots outside a string is one scalar.\<close>

definition is_word_char :: "nat \<Rightarrow> bool" where
  "is_word_char c \<longleftrightarrow>
     is_digit c \<or> (65 \<le> c \<and> c \<le> 90) \<or> (97 \<le> c \<and> c \<le> 122) \<or> c = 43 \<or> c = 45 \<or> c = 46"

definition classify_word :: "nat list \<Rightarrow> json option" where
  "classify_word w =
     (if w = py_str ''true'' then Some (JBool True)
      else if w = py_str ''false'' then Some (JBool False)
      else if w = py_str ''null'' then Some JNull
      else if w = py_str ''NaN'' then Some (JFloat NaN)
      else if w = py_str ''Infinity'' then Some (JFloat PInf)
      else if w = py_str ''-Infinity'' then Some (JFloat NInf)
      else json_number w)"

text \<open>
  The tokenizer reads one character at a time. Inside a string it keeps the content read
  so far (reversed) and a high surrogate of a \<open>\u\<close> escape that waits for its low half.
\<close>

datatype lex_state =
    LOutside
  | LWord "nat list"
  | LStr "nat list" "nat option"
  | LEsc "nat list" "nat option"
  | LHex "nat list" "nat option" "nat list"

definition flush :: "nat list \<Rightarrow> nat option \<Rightarrow> nat list" where
  "flush acc pending = (case pending of None \<Rightarrow> acc | Some h \<Rightarrow> h # acc)"

definition hex_value :: "nat \<Rightarrow> nat option" where
  "hex_value c =
     (if is_digit c then Some (c - 48)
      else if 97 \<le> c \<and> c \<le> 102 then Some (c - 87)
      else if 65 \<le> c \<and> c \<le> 70 then Some (c - 55)
      else None)"

definition simple_escape :: "nat \<Rightarrow> nat option" where
  "simple_escape c =
     (if c = 34 \<or> c = 92 \<or> c = 47 then Some c
      else if c = 98 then Some 8
      else if c = 102 then Some 12
      else if c = 110 then Some 10
      else if c = 114 then Some 13
      else if c = 116 then Some 9
      else None)"

text \<open>The end of a \<open>\uXXXX\<close> escape with value \<open>u\<close>.\<close>

definition unicode_escape :: "nat list \<Rightarrow> nat option \<Rightarrow> nat \<Rightarrow> lex_state" where
  "unicode_escape acc pending u =
     (case pending of
        Some h \<Rightarrow>
          if 56320 \<le> u \<and> u \<le> 57343
          then LStr ((65536 + (h - 55296) * 1024 + (u - 56320)) # acc) None
          else if 55296 \<le> u \<and> u \<le> 56319 then LStr (h # acc) (Some u)
          else LStr (u # h # acc) None
      | None \<Rightarrow>
          if 55296 \<le> u \<and> u \<le> 56319 then LStr acc (Some u) else LStr (u # acc) None)"

definition lex_outside :: "token list \<Rightarrow> nat \<Rightarrow> (lex_state \<times> token list) option" where
  "lex_outside toks c =
     (if c = 32 \<or> c = 9 \<or> c = 10 \<or> c = 13 then Some (LOutside, toks)
      else if c = 123 then Some (LOutside, TLBrace # toks)
      else if c = 125 then Some (LOutside, TRBrace # toks)
      else if c = 91 then Some (LOutside, TLBrack # toks)
      else if c = 93 then Some (LOutside, TRBrack # toks)
      else if c = 58 then Some (LOutside, TColon # toks)
      else if c = 44 then Some (LOutside, TComma # toks)
      else if c = 34 then Some (LStr [] None, toks)
      else if is_word_char c then Some (LWord [c], toks)
      else None)"

fun lex_step :: "lex_state \<Rightarrow> token list \<Rightarrow> nat \<Rightarrow> (lex_state \<times> token list) option" where
  "lex_step LOutside toks c = lex_outside toks c"
| "lex_step (LWord w) toks c =
     (if is_word_char c then Some (LWord (c # w), toks)
      else (case classify_word (rev w) of
              None \<Rightarrow> None
            | Some v \<Rightarrow> lex_outside (TVal v # toks) c))"
| "lex_step (LStr acc pending) toks c =
     (if c = 34 then Some (LOutside, TVal (JStr (rev (flush acc pending))) # toks)
      else if c = 92 then Some (LEsc acc pending, toks)
      else if c < 32 then None
      else Some (LStr (c # flush acc pending) None, toks))"
| "lex_step (LEsc acc pending) toks c =
     (if c = 117 then Some (LHex acc pending [], toks)
      else (case simple_escape c of
              None \<Rightarrow> None
            | Some d \<Rightarrow> Some (LStr (d # flush acc pending) None, toks)))"
| "lex_step (LHex acc pending hs) toks c =
     (case hex_value c of
        None \<Rightarrow> None
      | Some h \<Rightarrow>
          if length hs < 3 then Some (LHex acc pending (hs @ [h]), toks)
          else Some (unicode_escape acc pending (foldl (\<lambda>n d. 16 * n + d) 0 (hs @ [h])), toks))"

fun lex_run :: "lex_state \<Rightarrow> token list \<Rightarrow> nat list \<Rightarrow> token list option" where
  "lex_run st toks [] =
     (case st of
        LOutside \<Rightarrow> Some (rev toks)
      | LWord w \<Rightarrow> (case classify_word (rev w) of None \<Rightarrow> None | Some v \<Rightarrow> Some (rev (TVal v # toks)))
      | _ \<Rightarrow> None)"
| "lex_run st toks (c # cs) =
     (case lex_step st toks c of None \<Rightarrow> None | Some (st', toks') \<Rightarrow> lex_run st' toks' cs)"

text \<open>
  The parser keeps a stack of the arrays and objects that are open: the items of an array
  (reversed), the members of an object, or the members and the key whose value is awaited.
\<close>

datatype frame =
    FList "json list"
  | FDict "(pystr \<times> json) list"
  | FKey "(pystr \<times> json) list" pystr

datatype parse_mode =
    MValue | MValueOrClose | MKeyOrClose | MKey | MColon | MAfterElem | MAfterMember | MDone json

text \<open>A value is complete: it is the result, an array item or the value of a member.\<close>

definition complete :: "json \<Rightarrow> frame list \<Rightarrow> (parse_mode \<times> frame list) option" where
  "complete v stack =
     (case stack of
        [] \<Rightarrow> Some (MDone v, [])
      | FList xs # st \<Rightarrow> Some (MAfterElem, FList (v # xs) # st)
      | FKey kvs k # st \<Rightarrow> Some (MAfterMember, FDict (AList.update k v kvs) # st)
      | FDict kvs # st \<Rightarrow> None)"

definition close_list :: "frame list \<Rightarrow> (parse_mode \<times> frame list) option" where
  "close_list stack =
     (case stack of FList xs # st \<Rightarrow> complete (JList (rev xs)) st | _ \<Rightarrow> None)"

definition close_dict :: "frame list \<Rightarrow> (parse_mode \<times> frame list) option" where
  "close_dict stack =
     (case stack of FDict kvs # st \<Rightarrow> complete (JDict kvs) st | _ \<Rightarrow> None)"

definition open_key :: "pystr \<Rightarrow> frame list \<Rightarrow> (parse_mode \<times> frame list) option" where
  "open_key k stack =
     (case stack of FDict kvs # st \<Rightarrow> Some (MColon, FKey kvs k # st) | _ \<Rightarrow> None)"

definition parse_value :: "bool \<Rightarrow> frame list \<Rightarrow> token \<Rightarrow> (parse_mode \<times> frame list) option" where
  "parse_value may_close stack t =
     (case t of
        TVal v \<Rightarrow> complete v stack
      | TLBrack \<Rightarrow> Some (MValueOrClose, FList [] # stack)
      | TLBrace \<Rightarrow> Some (MKeyOrClose, FDict [] # stack)
      | TRBrack \<Rightarrow> if may_close then close_list stack else None
      | _ \<Rightarrow> None)"

definition parse_key :: "bool \<Rightarrow> frame list \<Rightarrow> token \<Rightarrow> (parse_mode \<times> frame list) option" where
  "parse_key may_close stack t =
     (case t of
        TVal (JStr k) \<Rightarrow> open_key k stack
      | TRBrace \<Rightarrow> if may_close then close_dict stack else None
      | _ \<Rightarrow> None)"

fun parse_step :: "parse_mode \<Rightarrow> frame list \<Rightarrow> token \<Rightarrow> (parse_mode \<times> frame list) option" where
  "parse_step MValue stack t = parse_value False stack t"
| "parse_step MValueOrClose stack t = parse_value True stack t"
| "parse_step MKeyOrClose stack t = parse_key True stack t"
| "parse_step MKey stack t = parse_key False stack t"
| "parse_step MColon stack t = (case t of TColon \<Rightarrow> Some (MValue, stack) | _ \<Rightarrow> None)"
| "parse_step MAfterElem stack t =
     (case t of TComma \<Rightarrow> Some (MValue, stack) | TRBrack \<Rightarrow> close_list stack | _ \<Rightarrow> None)"
| "parse_step MAfterMember stack t =
     (case t of TComma \<Rightarrow> Some (MKey, stack) | TRBrace \<Rightarrow> close_dict stack | _ \<Rightarrow> None)"
| "parse_step (MDone v) stack t = None"

fun parse_run :: "parse_mode \<Rightarrow> frame list \<Rightarrow> token list \<Rightarrow> json option" where
  "parse_run m stack [] = (case m of MDone v \<Rightarrow> Some v | _ \<Rightarrow> None)"
| "parse_run m stack (t # ts) =
     (case parse_step m stack t of None \<Rightarrow> None | Some (m', stack') \<Rightarrow> parse_run m' stack' ts)"

text \<open>\<open>json.loads(s)\<close>: the value of the text, or \<open>JSONDecodeError\<close>.\<close>

definition json_loads :: "pystr \<Rightarrow> py_exception + json" where
  "json_loads s =
     (case lex_run LOutside [] s of
        None \<Rightarrow> Inl JSONDecodeError
      | Some toks \<Rightarrow>
          (case parse_run MValue [] toks of
             None \<Rightarrow> Inl JSONDecodeError
           | Some v \<Rightarrow> Inr v))"

section \<open>The coercion \<open>float(x)\<close>\<close>

text \<open>
  The first code point of every run of ten decimal digits outside ASCII (Unicode 14).
\<close>

definition decimal_zeros :: "nat list" where
  "decimal_zeros =
     [1632, 1776, 1984, 2406, 2534, 2662, 2790, 2918, 3046, 3174, 3302, 3430, 3558, 3664,
      3792, 3872, 4160, 4240, 6112, 6160, 6470, 6608, 6784, 6800, 6992, 7088, 7232, 7248,
      42528, 43216, 43264, 43472, 43504, 43600, 44016, 65296, 66720, 68912, 69734, 69872,
      69942, 70096, 70384, 70736, 70864, 71248, 71360, 71472, 71904, 72016, 72784, 73040,
      73120, 92768, 92864, 93008, 120782, 120792, 120802, 120812, 120822, 123200, 123632,
      125264, 130032]"

text \<open>
  Before parsing, \<open>float\<close> maps every non-ASCII space to a blank and every non-ASCII
  decimal digit to its ASCII digit; any other non-ASCII character makes the text invalid
  (it becomes a question mark).
\<close>

definition to_ascii :: "nat \<Rightarrow> nat" where
  "to_ascii c =
     (if c < 128 then c
      else if py_isspace c then 32
      else (case filter (\<lambda>z. z \<le> c \<and> c < z + 10) decimal_zeros of
              [] \<Rightarrow> 63
            | z # _ \<Rightarrow> 48 + (c - z)))"

definition is_ascii_space :: "nat \<Rightarrow> bool" where
  "is_ascii_space c \<longleftrightarrow> c = 32 \<or> (9 \<le> c \<and> c \<le> 13)"

definition to_lower :: "nat \<Rightarrow> nat" where
  "to_lower c = (if 65 \<le> c \<and> c \<le> 90 then c + 32 else c)"

text \<open>
  A group of digits in which single underscores may separate digits: the digits with the
  underscores removed, or \<open>None\<close> if an underscore is misplaced.
\<close>

fun digit_group :: "nat list \<Rightarrow> nat list option" where
  "digit_group [] = Some []"
| "digit_group [c] = (if is_digit c then Some [c] else None)"
| "digit_group (c # d # cs) =
     (if is_digit c then
        (if d = 95 then map_option ((#) c) (if cs = [] then None else digit_group cs)
         else map_option ((#) c) (digit_group (d # cs)))
      else None)"

definition is_group_char :: "nat \<Rightarrow> bool" where
  "is_group_char c \<longleftrightarrow> is_digit c \<or> c = 95"

text \<open>The exponent \<open>[eE][+-]?digits\<close> of a float text, or the empty text.\<close>

definition float_exponent :: "nat list \<Rightarrow> int option" where
  "float_exponent s =
     (case s of
        [] \<Rightarrow> Some 0
      | c # r \<Rightarrow>
          if c = 101 \<or> c = 69 then
            (let (neg, g) =
               (case r of
                  [] \<Rightarrow> (False, [])
                | d # r' \<Rightarrow> if d = 45 then (True, r') else if d = 43 then (False, r') else (False, r))
             in (case digit_group g of
                   None \<Rightarrow> None
                 | Some ds \<Rightarrow>
                     if ds = [] then None
                     else Some (if neg then - int (digits_value ds) else int (digits_value ds))))
          else None)"

text \<open>The unsigned decimal text \<open>digits [. digits] [exponent]\<close> with a digit somewhere.\<close>

definition float_decimal :: "nat list \<Rightarrow> rat option" where
  "float_decimal s =
     (let ig = takeWhile is_group_char s;
          r1 = dropWhile is_group_char s;
          (fg, r2) =
            (case r1 of
               [] \<Rightarrow> ([], [])
             | c # r \<Rightarrow>
                 if c = 46 then (takeWhile is_group_char r, dropWhile is_group_char r)
                 else ([], r1))
      in (case (digit_group ig, digit_group fg, float_exponent r2) of
            (Some ip, Some fp, Some ex) \<Rightarrow>
              if ip = [] \<and> fp = [] then None
              else Some (of_nat (digits_value (ip @ fp)) * 10 powi (ex - int (length fp)))
          | _ \<Rightarrow> None))"

text \<open>\<open>float(s)\<close> for a string: \<open>None\<close> stands for \<open>ValueError\<close>.\<close>

definition float_of_str :: "pystr \<Rightarrow> pyfloat option" where
  "float_of_str s =
     (let t = map to_ascii s;
          u = rev (dropWhile is_ascii_space (rev (dropWhile is_ascii_space t)));
          (neg, body) =
            (case u of
               [] \<Rightarrow> (False, [])
             | c # r \<Rightarrow> if c = 45 then (True, r) else if c = 43 then (False, r) else (False, u));
          low = map to_lower body
      in if low = py_str ''inf'' \<or> low = py_str ''infinity'' then Some (if neg then NInf else PInf)
         else if low = py_str ''nan'' then Some NaN
         else (case float_decimal body of
                 None \<Rightarrow> None
               | Some m \<Rightarrow> Some (round_double (if neg then - m else m))))"

text \<open>\<open>float(x)\<close> for a value that \<open>json.loads\<close> can return.\<close>

fun py_float :: "json \<Rightarrow> py_exception + pyfloat" where
  "py_float (JFloat f) = Inr f"
| "py_float (JInt n) =
     (case round_double (of_int n) of Fin x \<Rightarrow> Inr (Fin x) | _ \<Rightarrow> Inl OverflowError)"
| "py_float (JBool b) = Inr (Fin (if b then 1 else 0))"
| "py_float (JStr s) = (case float_of_str s of None \<Rightarrow> Inl ValueError | Some f \<Rightarrow> Inr f)"
| "py_float JNull = Inl TypeError"
| "py_float (JList xs) = Inl TypeError"
| "py_float (JDict kvs) = Inl TypeError"

section \<open>The interpreter: \<open>parse_with_gemini\<close>\<close>

text \<open>The four calls of \<open>st.error\<close> in \<open>parse_with_gemini\<close>, with what each reports.\<close>

datatype st_error =
    MissingKeys
  | InvalidCategory json "pystr list"
  | FailedToParseJSON py_exception
  | GeminiAPIError py_exception

type_synonym parsed = "pyfloat \<times> json \<times> json \<times> json"

text \<open>What a call leaves behind: the errors shown, and \<open>None\<close> or the tuple returned.\<close>

type_synonym outcome = "st_error list \<times> parsed option"

definition required_keys :: "pystr list" where
  "required_keys = map py_str [''value'', ''from_unit'', ''to_unit'', ''category'']"

definition valid_categories :: "pystr list" where
  "valid_categories = map py_str [''Length'', ''Weight'', ''Temperature'', ''Volume'']"

text \<open>\<open>result.keys()\<close>: only a dict has the method.\<close>

definition keys :: "json \<Rightarrow> py_exception + pystr set" where
  "keys result = (case result of JDict kvs \<Rightarrow> Inr (set (map fst kvs)) | _ \<Rightarrow> Inl AttributeError)"

text \<open>
  \<open>result[k]\<close> where \<open>result\<close> is known to be a dict (the call of \<open>keys\<close> succeeded).
\<close>

definition subscript :: "json \<Rightarrow> pystr \<Rightarrow> py_exception + json" where
  "subscript result k =
     (case result of
        JDict kvs \<Rightarrow> (case map_of kvs k of None \<Rightarrow> Inl (KeyError k) | Some v \<Rightarrow> Inr v)
      | _ \<Rightarrow> Inl TypeError)"

text \<open>
  \<open>x not in valid_categories\<close> hashes \<open>x\<close>: a list or a dict raises \<open>TypeError\<close>. Of the
  hashable values only a string can equal a member of the set.
\<close>

definition not_in_valid :: "json \<Rightarrow> py_exception + bool" where
  "not_in_valid x =
     (case x of
        JList _ \<Rightarrow> Inl TypeError
      | JDict _ \<Rightarrow> Inl TypeError
      | JStr s \<Rightarrow> Inr (s \<notin> set valid_categories)
      | _ \<Rightarrow> Inr True)"

text \<open>Lines 104 to 107: the text between the code fences, if there are any.\<close>

definition strip_fences :: "pystr \<Rightarrow> py_exception + pystr" where
  "strip_fences raw_response =
     (if py_in (py_str ''```json'') raw_response then
        (case py_split raw_response (py_str ''```json'') of
           Inl e \<Rightarrow> Inl e
         | Inr parts \<Rightarrow>
            (case list_index parts 1 of
               Inl e \<Rightarrow> Inl e
             | Inr inner \<Rightarrow>
                (case py_split inner (py_str ''```'') of
                   Inl e \<Rightarrow> Inl e
                 | Inr parts' \<Rightarrow>
                    (case list_index parts' 0 of
                       Inl e \<Rightarrow> Inl e
                     | Inr body \<Rightarrow> Inr (py_strip body)))))
      else if py_in (py_str ''```'') raw_response then
        (case py_split raw_response (py_str ''```'') of
           Inl e \<Rightarrow> Inl e
         | Inr parts \<Rightarrow>
            (case list_index parts 1 of
               Inl e \<Rightarrow> Inl e
             | Inr body \<Rightarrow> Inr (py_strip body)))
      else Inr raw_response)"

text \<open>
  Lines 112 to 122, after \<open>json.loads\<close> has returned \<open>result\<close>. An exception raised here is
  not a \<open>JSONDecodeError\<close> and leaves the inner \<open>try\<close>.
\<close>

definition validate :: "json \<Rightarrow> py_exception + outcome" where
  "validate result =
     (case keys result of
        Inl e \<Rightarrow> Inl e
      | Inr ks \<Rightarrow>
          if \<not> set required_keys \<subseteq> ks then Inr ([MissingKeys], None)
          else
            (case subscript result (py_str ''category'') of
               Inl e \<Rightarrow> Inl e
             | Inr cat \<Rightarrow>
                (case not_in_valid cat of
                   Inl e \<Rightarrow> Inl e
                 | Inr True \<Rightarrow> Inr ([InvalidCategory cat valid_categories], None)
                 | Inr False \<Rightarrow>
                    (case subscript result (py_str ''value'') of
                       Inl e \<Rightarrow> Inl e
                     | Inr v \<Rightarrow>
                        (case py_float v of
                           Inl e \<Rightarrow> Inl e
                         | Inr x \<Rightarrow>
                            (case subscript result (py_str ''from_unit'') of
                               Inl e \<Rightarrow> Inl e
                             | Inr fu \<Rightarrow>
                                (case subscript result (py_str ''to_unit'') of
                                   Inl e \<Rightarrow> Inl e
                                 | Inr tu \<Rightarrow> Inr ([], Some (x, fu, tu, cat)))))))))"

text \<open>Lines 109 to 126: the inner \<open>try\<close> with its handler for \<open>json.JSONDecodeError\<close>.\<close>

definition parse_json :: "pystr \<Rightarrow> py_exception + outcome" where
  "parse_json raw_response =
     (case json_loads raw_response of
        Inl e \<Rightarrow> (if e = JSONDecodeError then Inr ([FailedToParseJSON e], None) else Inl e)
      | Inr result \<Rightarrow> validate result)"

text \<open>Lines 102 to 126: what is done with the text of the response.\<close>

definition interpret_response :: "pystr \<Rightarrow> py_exception + outcome" where
  "interpret_response text =
     (case strip_fences (py_strip text) of
        Inl e \<Rightarrow> Inl e
      | Inr raw_response \<Rightarrow> parse_json raw_response)"

text \<open>The prompt of lines 80 to 91.\<close>

definition prompt :: "pystr \<Rightarrow> pystr" where
  "prompt input_text =
     py_str (''\<newline>        Parse this conversion request: '' @ [CHR 0x22]) @ input_text @
     py_str ([CHR 0x22] @
       ''\<newline>        Return ONLY valid JSON in this format:'' @
       ''\<newline>        {'' @
       ''\<newline>            '' @ [CHR 0x22] @ ''value'' @ [CHR 0x22] @ '': number,'' @
       ''\<newline>            '' @ [CHR 0x22] @ ''from_unit'' @ [CHR 0x22] @ '': '' @
          [CHR 0x22] @ ''string'' @ [CHR 0x22] @ '','' @
       ''\<newline>            '' @ [CHR 0x22] @ ''to_unit'' @ [CHR 0x22] @ '': '' @
          [CHR 0x22] @ ''string'' @ [CHR 0x22] @ '','' @
       ''\<newline>            '' @ [CHR 0x22] @ ''category'' @ [CHR 0x22] @ '': '' @
          [CHR 0x22] @ ''string'' @ [CHR 0x22] @
       ''\<newline>        }'' @
       ''\<newline>        The category must be one of: '' @
          [CHR 0x22] @ ''Length'' @ [CHR 0x22] @ '', '' @ [CHR 0x22] @ ''Weight'' @ [CHR 0x22] @ '', '' @
          [CHR 0x22] @ ''Temperature'' @ [CHR 0x22] @ '', or '' @ [CHR 0x22] @ ''Volume'' @ [CHR 0x22] @ ''.'' @
       ''\<newline>        Use full unit names like '' @ [CHR 0x22] @ ''centimeters'' @ [CHR 0x22] @
          '' not '' @ [CHR 0x22] @ ''cm'' @ [CHR 0x22] @ '', '' @ [CHR 0x22] @ ''kilograms'' @ [CHR 0x22] @
          '' not '' @ [CHR 0x22] @ ''kg'' @ [CHR 0x22] @ ''.'' @
       ''\<newline>        '')"

text \<open>
  \<open>parse_with_gemini\<close>. The completion service is outside the program: \<open>generate\<close> stands
  for \<open>model.generate_content(prompt, ...)\<close> followed by \<open>response.text\<close>, which returns the
  text of the response or raises. The outer handler catches every exception.
\<close>

definition parse_with_gemini :: "(pystr \<Rightarrow> py_exception + pystr) \<Rightarrow> pystr \<Rightarrow> outcome" where
  "parse_with_gemini generate input_text =
     (case generate (prompt input_text) of
        Inl e \<Rightarrow> ([GeminiAPIError e], None)
      | Inr text \<Rightarrow>
          (case interpret_response text of
             Inl e \<Rightarrow> ([GeminiAPIError e], None)
           | Inr out \<Rightarrow> out))"

section \<open>Responses used as examples\<close>

definition quoted :: "string \<Rightarrow> string" where
  "quoted s = [CHR 0x22] @ s @ [CHR 0x22]"

text \<open>The members \<open>"value": 5, "from_unit": "feet", "to_unit": "meters"\<close>.\<close>

definition three_members :: string where
  "three_members =
     quoted ''value'' @ '': 5, '' @ quoted ''from_unit'' @ '': '' @ quoted ''feet'' @ '', '' @
     quoted ''to_unit'' @ '': '' @ quoted ''meters''"

text \<open>The object with the four keys, between code fences marked \<open>json\<close>.\<close>

definition fenced_response :: pystr where
  "fenced_response =
     py_str (''```json'' @ [CHR 0x0A] @
       ''{'' @ three_members @ '', '' @ quoted ''category'' @ '': '' @ quoted ''Length'' @ ''}'' @
       [CHR 0x0A] @ ''```'')"

definition response_without_category :: pystr where
  "response_without_category = py_str (''{'' @ three_members @ ''}'')"

definition response_speed :: pystr where
  "response_speed =
     py_str (''{'' @ three_members @ '', '' @ quoted ''category'' @ '': '' @ quoted ''Speed'' @ ''}'')"

definition response_list_category :: pystr where
  "response_list_category =
     py_str (''{'' @ three_members @ '', '' @ quoted ''category'' @ '': []}'')"

definition response_text_value :: pystr where
  "response_text_value =
     py_str (''{'' @ quoted ''value'' @ '': '' @ quoted ''abc'' @ '', '' @
       quoted ''from_unit'' @ '': '' @ quoted ''feet'' @ '', '' @
       quoted ''to_unit'' @ '': '' @ quoted ''meters'' @ '', '' @
       quoted ''category'' @ '': '' @ quoted ''Length'' @ ''}'')"

text \<open>The members that \<open>json.loads\<close> reads from \<open>three_members\<close>.\<close>

definition three_members_dict :: "(pystr \<times> json) list" where
  "three_members_dict =
     [(py_str ''value'', JInt 5),
      (py_str ''from_unit'', JStr (py_str ''feet'')),
      (py_str ''to_unit'', JStr (py_str ''meters''))]"

section \<open>The temperature formulas as the specification words them\<close>

datatype scale = Celsius | Fahrenheit | Kelvin

fun scale_name :: "scale \<Rightarrow> string" where
  "scale_name Celsius = ''Celsius''"
| "scale_name Fahrenheit = ''Fahrenheit''"
| "scale_name Kelvin = ''Kelvin''"

text \<open>
  The inverse formulas (to Celsius): Fahrenheit \<open>(x-32)*5/9\<close>, Kelvin \<open>x-273.15\<close>, Celsius
  the identity.
\<close>

fun spec_inverse :: "scale \<Rightarrow> pyfloat \<Rightarrow> py_exception + pyfloat" where
  "spec_inverse Fahrenheit x = py_truediv (py_mul (py_sub x (Fin 32)) (Fin 5)) (Fin 9)"
| "spec_inverse Kelvin x = Inr (py_sub x (float_lit 273.15))"
| "spec_inverse Celsius x = Inr x"

text \<open>
  The forward formulas (from Celsius): Fahrenheit \<open>x*9/5+32\<close>, Kelvin \<open>x+273.15\<close>, Celsius
  the identity.
\<close>

fun spec_forward :: "scale \<Rightarrow> pyfloat \<Rightarrow> py_exception + pyfloat" where
  "spec_forward Fahrenheit x =
     (case py_truediv (py_mul x (Fin 9)) (Fin 5) of
        Inl e \<Rightarrow> Inl e
      | Inr y \<Rightarrow> Inr (py_add y (Fin 32)))"
| "spec_forward Kelvin x = Inr (py_add x (float_lit 273.15))"
| "spec_forward Celsius x = Inr x"

text \<open>
  The same formulas in exact rational arithmetic, with the float \<open>273.15\<close> as the offset
  of the Kelvin scale. The rounded results are compared with them.
\<close>

definition kelvin_offset :: rat where
  "kelvin_offset = 2402652809016115 / 8796093022208"

fun exact_inverse :: "scale \<Rightarrow> rat \<Rightarrow> rat" where
  "exact_inverse Fahrenheit x = (x - 32) * 5 / 9"
| "exact_inverse Kelvin x = x - kelvin_offset"
| "exact_inverse Celsius x = x"

fun exact_forward :: "scale \<Rightarrow> rat \<Rightarrow> rat" where
  "exact_forward Fahrenheit c = c * 9 / 5 + 32"
| "exact_forward Kelvin c = c + kelvin_offset"
| "exact_forward Celsius c = c"

section \<open>Rounding: the exponent and the rounded value\<close>


lemma ilog2_ge1:
  fixes x :: rat
  assumes "1 \<le> x" "2 powi e \<le> x" "x < 2 powi (e + 1)"
  shows "ilog2 x = e"
proof -
  have e0: "0 \<le> e"
  proof (rule ccontr)
    assume "\<not> 0 \<le> e"
    then have "e + 1 \<le> 0" by simp
    then have "(2::rat) powi (e + 1) \<le> 2 powi 0"
      by (intro power_int_increasing) auto
    with assms show False by simp
  qed
  define n where "n = \<lfloor>x\<rfloor>"
  have p1: "(2::rat) powi e = of_int (2 ^ nat e)" using e0 by (simp add: power_int_nonneg_exp)
  have p2: "(2::rat) powi (e + 1) = of_int (2 ^ nat (e + 1))" using e0 by (simp add: power_int_nonneg_exp)
  have lo: "2 ^ nat e \<le> n" unfolding n_def using assms(2) p1 by (simp add: le_floor_iff)
  have hi: "n < 2 ^ nat (e + 1)" unfolding n_def using assms(3) p2 by (simp add: floor_less_iff)
  have "bitlen n \<le> e + 1" using hi e0 by (simp add: bitlen_le_iff_power)
  moreover have "e + 1 \<le> bitlen n" using lo e0 by (simp add: bitlen_ge_iff_power nat_add_distrib)
  ultimately have "bitlen n = e + 1" by simp
  then show ?thesis using assms(1) by (simp add: ilog2_def n_def)
qed

lemma ilog2_lt1:
  fixes x :: rat
  assumes "0 < x" "x < 1" "2 powi e \<le> x" "x < 2 powi (e + 1)"
  shows "ilog2 x = e"
proof -
  have e0: "e < 0"
  proof (rule ccontr)
    assume "\<not> e < 0"
    then have "(2::rat) powi 0 \<le> 2 powi e"
      by (intro power_int_increasing) auto
    with assms show False by simp
  qed
  define y where "y = 1 / x"
  define n where "n = \<lfloor>y\<rfloor>"
  define k where "k = bitlen n"
  have ypos: "0 < y" using assms(1) by (simp add: y_def)
  have q1: "(2::rat) powi e = 1 / of_int (2 ^ nat (- e))"
    using e0 power_int_minus_divide[of "2::rat" "- e"] by (simp add: power_int_nonneg_exp)
  have q2: "(2::rat) powi (e + 1) = 1 / of_int (2 ^ nat (- e - 1))"
    using e0 power_int_minus_divide[of "2::rat" "- e - 1"] by (simp add: power_int_nonneg_exp add.commute)
  have yhi: "y \<le> of_int (2 ^ nat (- e))"
    using assms(1,3) unfolding q1 y_def by (simp add: field_simps)
  have ylo: "of_int (2 ^ nat (- e - 1)) < y"
    using assms(1,4) unfolding q2 y_def by (simp add: field_simps)
  have nlo: "2 ^ nat (- e - 1) \<le> n" unfolding n_def using ylo by (simp add: le_floor_iff)
  have kge: "- e \<le> k" unfolding k_def using nlo e0 by (simp add: bitlen_ge_iff_power nat_diff_distrib)
  have il: "ilog2 x = (if x = 2 powi (1 - k) then 1 - k else - k)"
    using assms(2) by (simp add: ilog2_def Let_def k_def n_def y_def)
  show ?thesis
  proof (cases "x = 2 powi e")
    case True
    then have "y = of_int (2 ^ nat (- e))" unfolding y_def q1 by simp
    then have "n = 2 ^ nat (- e)" unfolding n_def by (metis floor_of_int)
    then have "k = - e + 1" unfolding k_def using e0 bitlen_twopow_add_eq[of 0 "nat (- e)"] by simp
    then have "1 - k = e" by simp
    then show ?thesis using True il by simp
  next
    case False
    then have "y \<noteq> of_int (2 ^ nat (- e))" unfolding y_def q1 using assms(1) by (auto simp: field_simps)
    with yhi have "y < of_int (2 ^ nat (- e))" by simp
    then have "n < 2 ^ nat (- e)" unfolding n_def by (simp add: floor_less_iff)
    then have "k \<le> - e" unfolding k_def using e0 by (simp add: bitlen_le_iff_power)
    with kge have k: "k = - e" by simp
    then have "x \<noteq> 2 powi (1 - k)" using assms(4) by (auto simp: add.commute)
    then show ?thesis using k il by simp
  qed
qed

lemma ilog2_eq:
  fixes x :: rat
  assumes "2 powi e \<le> x" "x < 2 powi (e + 1)"
  shows "ilog2 x = e"
proof -
  have "0 < (2::rat) powi e" by simp
  with assms have "0 < x" by linarith
  then show ?thesis using assms ilog2_ge1[of x e] ilog2_lt1[of x e] by (cases "1 \<le> x") auto
qed


lemma ilog2_bounds:
  fixes x :: rat
  assumes "0 < x"
  shows "2 powi ilog2 x \<le> x \<and> x < 2 powi (ilog2 x + 1)"
proof (cases "1 \<le> x")
  case True
  define n where "n = \<lfloor>x\<rfloor>"
  have n1: "1 \<le> n" unfolding n_def using True by (simp add: le_floor_iff)
  then have npos: "0 < n" by simp
  have b1: "1 \<le> bitlen n" using n1 by (simp add: bitlen_ge_iff_power)
  have il: "ilog2 x = bitlen n - 1" using True by (simp add: ilog2_def n_def)
  from bitlen_bounds[OF npos] have lo: "2 ^ nat (bitlen n - 1) \<le> n" and hi: "n < 2 ^ nat (bitlen n)"
    by auto
  have "rat_of_int (2 ^ nat (bitlen n - 1)) \<le> rat_of_int n" using lo by (simp only: of_int_le_iff)
  also have "\<dots> \<le> x" unfolding n_def by simp
  finally have A: "2 powi (bitlen n - 1) \<le> x" using b1 by (simp add: power_int_nonneg_exp)
  have "n + 1 \<le> 2 ^ nat (bitlen n)" using hi by simp
  then have "rat_of_int (n + 1) \<le> rat_of_int (2 ^ nat (bitlen n))" by (simp only: of_int_le_iff)
  moreover have "x < rat_of_int (n + 1)" unfolding n_def by linarith
  ultimately have "x < rat_of_int (2 ^ nat (bitlen n))" by linarith
  then have B: "x < 2 powi (bitlen n)" using b1 by (simp add: power_int_nonneg_exp)
  show ?thesis using A B il by simp
next
  case False
  then have x1: "x < 1" by simp
  define y where "y = 1 / x"
  define n where "n = \<lfloor>y\<rfloor>"
  define k where "k = bitlen n"
  have y1: "1 < y" using assms x1 by (simp add: y_def)
  have n1: "1 \<le> n" unfolding n_def using y1 by (simp add: le_floor_iff)
  then have npos: "0 < n" by simp
  have k1: "1 \<le> k" unfolding k_def using n1 by (simp add: bitlen_ge_iff_power)
  have il: "ilog2 x = (if x = 2 powi (1 - k) then 1 - k else - k)"
    using x1 by (simp add: ilog2_def Let_def k_def n_def y_def)
  from bitlen_bounds[OF npos] have lo: "2 ^ nat (k - 1) \<le> n" and hi: "n < 2 ^ nat k"
    by (auto simp: k_def)
  have "rat_of_int (2 ^ nat (k - 1)) \<le> rat_of_int n" using lo by (simp only: of_int_le_iff)
  also have "\<dots> \<le> y" unfolding n_def by simp
  finally have ylo: "2 ^ nat (k - 1) \<le> y" by simp
  have "n + 1 \<le> 2 ^ nat k" using hi by simp
  then have "rat_of_int (n + 1) \<le> rat_of_int (2 ^ nat k)" by (simp only: of_int_le_iff)
  moreover have "y < rat_of_int (n + 1)" unfolding n_def by linarith
  ultimately have yhi: "y < 2 ^ nat k" by simp
  have p1: "(2::rat) powi (1 - k) = 1 / 2 ^ nat (k - 1)"
    using k1 power_int_minus_divide[of "2::rat" "k - 1"] by (simp add: power_int_nonneg_exp)
  have p2: "(2::rat) powi (- k) = 1 / 2 ^ nat k"
    using k1 power_int_minus_divide[of "2::rat" "k"] by (simp add: power_int_nonneg_exp)
  have xhi: "x \<le> 2 powi (1 - k)" unfolding p1 using ylo assms y1 by (simp add: y_def field_simps)
  have xlo: "2 powi (- k) < x" unfolding p2 using yhi assms y1 by (simp add: y_def field_simps)
  have inc: "(2::rat) powi (1 - k) < 2 powi (1 - k + 1)" by (intro power_int_strict_increasing) auto
  show ?thesis
  proof (cases "x = 2 powi (1 - k)")
    case True
    then show ?thesis using il inc by simp
  next
    case False
    with xhi have "x < 2 powi (1 - k)" by simp
    then show ?thesis using il False xlo by (simp add: add.commute)
  qed
qed

lemma rhe_err: "\<bar>of_int (round_half_even x) - x\<bar> \<le> 1 / 2"
proof -
  have "of_int \<lfloor>x\<rfloor> \<le> x" "x < of_int \<lfloor>x\<rfloor> + 1" by linarith+
  then show ?thesis by (auto simp: round_half_even_def Let_def)
qed

lemma rhe_lower: "of_int n \<le> x \<Longrightarrow> n \<le> round_half_even x"
proof -
  assume "of_int n \<le> x"
  then have "n \<le> \<lfloor>x\<rfloor>" by (simp add: le_floor_iff)
  then show ?thesis by (auto simp: round_half_even_def Let_def)
qed

lemma rhe_upper: "x \<le> of_int n \<Longrightarrow> round_half_even x \<le> n"
proof (cases "x = of_int n")
  case True
  then show ?thesis by (simp add: round_half_even_def)
next
  case False
  assume "x \<le> of_int n"
  with False have "x < of_int n" by simp
  then have "\<lfloor>x\<rfloor> < n" by (simp add: floor_less_iff)
  then show ?thesis by (auto simp: round_half_even_def Let_def)
qed

lemma rhe_of_int [simp]: "round_half_even (of_int n) = n"
  by (simp add: round_half_even_def)

lemma round_double_normal:
  assumes "2 powi e \<le> \<bar>x\<bar>" "\<bar>x\<bar> < 2 powi (e + 1)" "- 1022 \<le> e" "e \<le> 1022"
  shows "round_double x =
    Fin (of_int (round_half_even (x / 2 powi (e - 52))) * 2 powi (e - 52))"
proof -
  define q :: rat where "q = 2 powi (e - 52)"
  define m where "m = round_half_even (x / q)"
  have qpos: "0 < q" by (simp add: q_def)
  have "0 < (2::rat) powi e" by simp
  with assms(1) have "0 < \<bar>x\<bar>" by linarith
  then have x0: "x \<noteq> 0" by simp
  have il: "ilog2 \<bar>x\<bar> = e" using assms(1,2) by (rule ilog2_eq)
  have q53: "(2::rat) powi (e + 1) = 2 ^ 53 * q"
    unfolding q_def using power_int_add[of "2::rat" 53 "e - 52"] by (simp add: add.commute)
  have "\<bar>x / q\<bar> = \<bar>x\<bar> / q" using qpos by simp
  also have "\<dots> < 2 ^ 53" using assms(2) qpos unfolding q53 by (simp add: field_simps)
  finally have xq: "\<bar>x / q\<bar> < 2 ^ 53" .
  have xq2: "x / q < 2 ^ 53 \<and> - (2 ^ 53) < x / q" using xq unfolding abs_less_iff by auto
  have "x / q \<le> rat_of_int (2 ^ 53)" using xq2 by simp
  then have mu: "m \<le> 2 ^ 53" unfolding m_def by (rule rhe_upper)
  have "rat_of_int (- (2 ^ 53)) \<le> x / q" using xq2 by simp
  then have ml: "- (2 ^ 53) \<le> m" unfolding m_def by (rule rhe_lower)
  have "\<bar>m\<bar> \<le> 2 ^ 53" using mu ml by simp
  then have "rat_of_int \<bar>m\<bar> \<le> rat_of_int (2 ^ 53)" by (simp only: of_int_le_iff)
  then have "\<bar>rat_of_int m\<bar> \<le> 2 ^ 53" by simp
  then have "\<bar>rat_of_int m * q\<bar> \<le> 2 ^ 53 * q" using qpos by (simp add: abs_mult)
  also have "\<dots> = 2 powi (e + 1)" using q53 by simp
  also have "\<dots> \<le> 2 powi 1023" using assms(4) by (intro power_int_increasing) auto
  also have "\<dots> < 2 ^ 1024" by simp
  finally have "\<not> 2 ^ 1024 \<le> \<bar>rat_of_int m * q\<bar>" by simp
  then show ?thesis using x0 il assms(3)
    by (simp add: round_double_def Let_def max_def flip: q_def m_def)
qed

lemma rhe_numeral [simp]: "round_half_even (numeral n) = numeral n"
  using rhe_of_int[of "numeral n"] by simp

lemma floor_rat_num:
  "\<lfloor>numeral a / numeral b :: rat\<rfloor> = numeral a div numeral b"
  "\<lfloor>- (numeral a / numeral b) :: rat\<rfloor> = - numeral a div numeral b"
  by (metis floor_divide_of_int_eq of_int_numeral of_int_minus divide_minus_left)+

lemmas rhe_eval = round_half_even_def Let_def floor_rat_num

text \<open>Rounding in the normal range keeps the sign and has relative error \<open>2 ^ -53\<close>.\<close>

lemma round_double_rel:
  assumes "2 powi (- 1022) \<le> \<bar>x\<bar>" "\<bar>x\<bar> < 2 powi 1023"
  shows "\<exists>y. round_double x = Fin y \<and> \<bar>y - x\<bar> \<le> 2 powi (- 53) * \<bar>x\<bar>"
proof -
  define e where "e = ilog2 \<bar>x\<bar>"
  have "0 < (2::rat) powi (- 1022)" by simp
  with assms(1) have xpos: "0 < \<bar>x\<bar>" by linarith
  from ilog2_bounds[OF xpos] have lo: "2 powi e \<le> \<bar>x\<bar>" and hi: "\<bar>x\<bar> < 2 powi (e + 1)"
    by (auto simp: e_def)
  have e1: "- 1022 \<le> e"
  proof (rule ccontr)
    assume "\<not> - 1022 \<le> e"
    then have "e + 1 \<le> - 1022" by simp
    then have "(2::rat) powi (e + 1) \<le> 2 powi (- 1022)" by (intro power_int_increasing) auto
    with hi assms(1) show False by linarith
  qed
  have e2: "e \<le> 1022"
  proof (rule ccontr)
    assume "\<not> e \<le> 1022"
    then have "1023 \<le> e" by simp
    then have "(2::rat) powi 1023 \<le> 2 powi e" by (intro power_int_increasing) auto
    with lo assms(2) show False by linarith
  qed
  define q :: rat where "q = 2 powi (e - 52)"
  define m where "m = round_half_even (x / q)"
  have qpos: "0 < q" by (simp add: q_def)
  have rd: "round_double x = Fin (of_int m * q)"
    unfolding m_def q_def using lo hi e1 e2 by (rule round_double_normal)
  have "\<bar>of_int m * q - x\<bar> = \<bar>of_int m - x / q\<bar> * q"
  proof -
    have "of_int m * q - x = (of_int m - x / q) * q" using qpos by (simp add: field_simps)
    then show ?thesis using qpos by (simp add: abs_mult)
  qed
  also have "\<dots> \<le> 1 / 2 * q"
    unfolding m_def using rhe_err[of "x / q"] qpos by (intro mult_right_mono) auto
  also have "1 / 2 * q = 2 powi (- 53) * 2 powi e"
    unfolding q_def using power_int_add[of "2::rat" "- 53" e] power_int_add[of "2::rat" "- 1" "e - 52"]
    by (simp add: add.commute)
  also have "\<dots> \<le> 2 powi (- 53) * \<bar>x\<bar>" using lo by (intro mult_left_mono) auto
  finally show ?thesis using rd by blast
qed

lemma round_double_pos:
  assumes "2 powi (- 1022) \<le> x" "x < 2 powi 1023"
  shows "\<exists>y. round_double x = Fin y \<and> 0 < y"
proof -
  have "0 < (2::rat) powi (- 1022)" by simp
  with assms(1) have xpos: "0 < x" by linarith
  then have ax: "\<bar>x\<bar> = x" by simp
  from round_double_rel[of x] assms ax obtain y
    where y: "round_double x = Fin y" "\<bar>y - x\<bar> \<le> 2 powi (- 53) * x" by auto
  have "(2::rat) powi (- 53) * x \<le> 1 / 2 * x" using xpos by (intro mult_right_mono) auto
  with y(2) have "\<bar>y - x\<bar> \<le> 1 / 2 * x" by linarith
  then have "0 < y" using xpos by linarith
  with y(1) show ?thesis by blast
qed

text \<open>Every factor of the tables is a positive finite float.\<close>

lemma float_lit_pos:
  assumes "1 / 1024 \<le> x" "x \<le> 2048"
  shows "\<exists>y. float_lit x = Fin y \<and> 0 < y"
proof -
  have "(2::rat) powi (- 1022) \<le> 2 powi (- 10)" by (intro power_int_increasing) auto
  then have a: "2 powi (- 1022) \<le> x" using assms(1) by simp
  have "(2::rat) powi 11 < 2 powi 1023" by (intro power_int_strict_increasing) auto
  then have b: "x < 2 powi 1023" using assms(2) by simp
  show ?thesis unfolding float_lit_def using a b by (rule round_double_pos)
qed

section \<open>The literals and sums that the examples need\<close>

lemma float_lit_273_15: "float_lit 273.15 = Fin (2402652809016115 / 8796093022208)"
  unfolding float_lit_def using round_double_normal[of 8 "27315 / 100"] by (simp add: rhe_eval)

lemma float_lit_1609_34: "float_lit 1609.34 = Fin (7077952172180111 / 4398046511104)"
  unfolding float_lit_def using round_double_normal[of 10 "160934 / 100"] by (simp add: rhe_eval)

lemma float_lit_1000: "float_lit 1000.0 = Fin 1000"
  unfolding float_lit_def using round_double_normal[of 9 1000] by simp

lemma float_lit_1: "float_lit 1.0 = Fin 1"
  unfolding float_lit_def using round_double_normal[of 0 1] by simp

lemma round_double_0 [simp]: "round_double 0 = Fin 0"
  by (simp add: round_double_def)

lemma round_double_32: "round_double 32 = Fin 32"
  using round_double_normal[of 5 32] by simp

lemma round_double_900: "round_double 900 = Fin 900"
  using round_double_normal[of 9 900] by simp

lemma round_double_180: "round_double 180 = Fin 180"
  using round_double_normal[of 7 180] by simp

lemma round_double_212: "round_double 212 = Fin 212"
  using round_double_normal[of 7 212] by simp

lemma round_double_273_15:
  "round_double (2402652809016115 / 8796093022208) = Fin (2402652809016115 / 8796093022208)"
  using round_double_normal[of 8 "2402652809016115 / 8796093022208"] by (simp add: rhe_eval)

lemma round_double_miles:
  "round_double (7077952172180111 / 4398046511104) = Fin (7077952172180111 / 4398046511104)"
  using round_double_normal[of 10 "7077952172180111 / 4398046511104"] by (simp add: rhe_eval)

section \<open>Looking units up in the tables\<close>

lemma py_str_eq_iff [simp]: "py_str a = py_str b \<longleftrightarrow> a = b"
  unfolding py_str_def by (rule inj_map_eq_map) (auto simp: inj_on_def)

lemma conversions_Length: "conversions (py_str ''Length'') = Some (dict_of length_table)"
  by (simp add: conversions_def dict_of_def)

lemma conversions_Weight: "conversions (py_str ''Weight'') = Some (dict_of weight_table)"
  by (simp add: conversions_def dict_of_def)

lemma conversions_Volume: "conversions (py_str ''Volume'') = Some (dict_of volume_table)"
  by (simp add: conversions_def dict_of_def)

lemma conversions_dom:
  "conversions c = None \<longleftrightarrow>
   c \<notin> {py_str ''Length'', py_str ''Weight'', py_str ''Temperature'', py_str ''Volume''}"
  by (auto simp: conversions_def dict_of_def)

lemma dict_of_distinct:
  assumes "distinct (map fst kvs)" "(k, v) \<in> set kvs"
  shows "dict_of kvs (py_str k) = Some v"
proof -
  let ?f = "\<lambda>(k, v). (py_str k, v)"
  have eq: "map fst (map ?f kvs) = map py_str (map fst kvs)" by (induction kvs) auto
  have "distinct (map py_str (map fst kvs))"
    using assms(1) by (simp add: distinct_map inj_on_def)
  then have d: "distinct (map fst (map ?f kvs))" by (simp only: eq)
  have "(py_str k, v) \<in> set (map ?f kvs)" using assms(2) by force
  with d show ?thesis unfolding dict_of_def by (rule map_of_is_SomeI)
qed

lemma dict_of_None: "dict_of kvs k = None \<longleftrightarrow> k \<notin> py_str ` fst ` set kvs"
  unfolding dict_of_def by (induction kvs) (auto simp: image_iff)

section \<open>The conversion engine: formulas, examples and lookup failures\<close>

lemma round_double_278:
  "round_double (2446633274127155 / 8796093022208) = Fin (2446633274127155 / 8796093022208)"
  using round_double_normal[of 8 "2446633274127155 / 8796093022208"] by (simp add: rhe_eval)

lemma round_double_miles_km2:
  "round_double (7077952172180111 / 4398046511104000) =
     Fin (3623911512156217 / 2251799813685248)"
  using round_double_normal[of 0 "7077952172180111 / 4398046511104000"] by (simp add: rhe_eval)

lemma py_truediv_Inr: "b \<noteq> 0 \<Longrightarrow> \<exists>r. py_truediv x (Fin b) = Inr r"
  by (cases x) auto

lemma convert_units_table:
  assumes "conversions c = Some tbl" "c \<noteq> py_str ''Temperature''"
    "tbl fu = Some (Factor f)" "tbl tu = Some (Factor t)"
  shows "convert_units v fu tu c = py_truediv (py_mul v f) t"
  using assms by (simp add: convert_units_def getitem_def mul_entry_def div_entry_def)

lemma float_lit_norm:
  "float_lit (5463 / 20) = Fin (2402652809016115 / 8796093022208)"
  "float_lit (80467 / 50) = Fin (7077952172180111 / 4398046511104)"
  "float_lit 1000 = Fin 1000"
  "float_lit 1 = Fin 1"
  using float_lit_273_15 float_lit_1609_34 float_lit_1000 float_lit_1 by simp_all

lemma length_table_factor:
  assumes "(u, Factor f) \<in> set length_table"
  shows "\<exists>y. f = Fin y \<and> 0 < y"
proof -
  from assms have "f \<in> float_lit ` {1.0, 0.3048, 0.0254, 0.01, 1000.0, 1609.34}"
    by (auto simp: length_table_def)
  then obtain x where "f = float_lit x" "1 / 1024 \<le> x" "x \<le> 2048" by auto
  then show ?thesis using float_lit_pos by blast
qed

lemma weight_table_factor:
  assumes "(u, Factor f) \<in> set weight_table"
  shows "\<exists>y. f = Fin y \<and> 0 < y"
proof -
  from assms have "f \<in> float_lit ` {1.0, 0.453592, 0.001, 0.0283495}"
    by (auto simp: weight_table_def)
  then obtain x where "f = float_lit x" "1 / 1024 \<le> x" "x \<le> 2048" by auto
  then show ?thesis using float_lit_pos by blast
qed

lemma volume_table_factor:
  assumes "(u, Factor f) \<in> set volume_table"
  shows "\<exists>y. f = Fin y \<and> 0 < y"
proof -
  from assms have "f \<in> float_lit ` {1.0, 3.78541, 0.001, 28.3168}"
    by (auto simp: volume_table_def)
  then obtain x where "f = float_lit x" "1 / 1024 \<le> x" "x \<le> 2048" by auto
  then show ?thesis using float_lit_pos by blast
qed

lemma factor_tables:
  assumes "(category, table) \<in>
     {(''Length'', length_table), (''Weight'', weight_table), (''Volume'', volume_table)}"
  shows "conversions (py_str category) = Some (dict_of table)"
    and "py_str category \<noteq> py_str ''Temperature''"
    and "distinct (map fst table)"
    and "(u, Factor f) \<in> set table \<Longrightarrow> \<exists>y. f = Fin y \<and> 0 < y"
proof -
  from assms consider
      "category = ''Length''" "table = length_table"
    | "category = ''Weight''" "table = weight_table"
    | "category = ''Volume''" "table = volume_table" by auto
  note cases = this
  show "conversions (py_str category) = Some (dict_of table)"
    by (rule cases) (simp_all add: conversions_Length conversions_Weight conversions_Volume)
  show "py_str category \<noteq> py_str ''Temperature''"
    by (rule cases) simp_all
  show "distinct (map fst table)"
    by (rule cases) (simp_all add: length_table_def weight_table_def volume_table_def)
  show "(u, Factor f) \<in> set table \<Longrightarrow> \<exists>y. f = Fin y \<and> 0 < y"
    by (rule cases)
      (simp_all add: length_table_factor weight_table_factor volume_table_factor)
qed

lemma convert_units_factor_general:
  assumes "(category, table) \<in>
     {(''Length'', length_table), (''Weight'', weight_table), (''Volume'', volume_table)}"
    and "(from_unit, Factor f) \<in> set table" and "(to_unit, Factor t) \<in> set table"
  shows "convert_units v (py_str from_unit) (py_str to_unit) (py_str category) =
           py_truediv (py_mul v f) t \<and> (\<exists>r. py_truediv (py_mul v f) t = Inr r)"
proof -
  note ft = factor_tables[OF assms(1)]
  have a: "dict_of table (py_str from_unit) = Some (Factor f)"
    using ft(3) assms(2) by (rule dict_of_distinct)
  have b: "dict_of table (py_str to_unit) = Some (Factor t)"
    using ft(3) assms(3) by (rule dict_of_distinct)
  have eq: "convert_units v (py_str from_unit) (py_str to_unit) (py_str category) =
           py_truediv (py_mul v f) t"
    using ft(1) ft(2) a b by (rule convert_units_table)
  from ft(4)[OF assms(3)] obtain y where "t = Fin y" "0 < y" by auto
  then have "\<exists>r. py_truediv (py_mul v f) t = Inr r" using py_truediv_Inr[of y] by auto
  with eq show ?thesis by simp
qed

lemma miles_to_kilometers:
  "convert_units (Fin 1) (py_str ''miles'') (py_str ''kilometers'') (py_str ''Length'') =
     Inr (Fin (3623911512156217 / 2251799813685248))"
proof -
  have "convert_units (Fin 1) (py_str ''miles'') (py_str ''kilometers'') (py_str ''Length'') =
      py_truediv (py_mul (Fin 1) (float_lit 1609.34)) (float_lit 1000.0)"
    using convert_units_factor_general[of "''Length''" length_table "''miles''" "float_lit 1609.34"
        "''kilometers''" "float_lit 1000.0" "Fin 1"]
    by (simp add: length_table_def)
  then show ?thesis
    by (simp add: float_lit_norm round_double_miles round_double_miles_km2)
qed

text \<open>
  Claim C1. For Length, Weight and Volume and every pair of units of the category's table,
  \<open>convert_units\<close> returns \<open>value * factor(from_unit) / factor(to_unit)\<close>, computed in
  float arithmetic and never raising; and one mile is within \<open>1e-3\<close> of \<open>1.60934\<close>
  kilometers.
\<close>

theorem convert_units_factor:
  "(\<forall>category table from_unit to_unit f t v.
      (category, table) \<in>
        {(''Length'', length_table), (''Weight'', weight_table), (''Volume'', volume_table)} \<longrightarrow>
      (from_unit, Factor f) \<in> set table \<longrightarrow>
      (to_unit, Factor t) \<in> set table \<longrightarrow>
      convert_units v (py_str from_unit) (py_str to_unit) (py_str category) =
        py_truediv (py_mul v f) t \<and>
      (\<exists>r. py_truediv (py_mul v f) t = Inr r)) \<and>
   (\<exists>r. convert_units (Fin 1) (py_str ''miles'') (py_str ''kilometers'') (py_str ''Length'') =
          Inr (Fin r) \<and> \<bar>r - 1.60934\<bar> < 1 / 1000)"
proof (intro conjI allI impI)
  show "\<exists>r. convert_units (Fin 1) (py_str ''miles'') (py_str ''kilometers'') (py_str ''Length'') =
          Inr (Fin r) \<and> \<bar>r - 1.60934\<bar> < 1 / 1000"
    unfolding miles_to_kilometers
    by (intro exI[of _ "3623911512156217 / 2251799813685248"]) simp
qed (use convert_units_factor_general in blast)+

theorem convert_units_factor_witness:
  "(''Length'', length_table) \<in>
      {(''Length'', length_table), (''Weight'', weight_table), (''Volume'', volume_table)} \<and>
   (''feet'', Factor (float_lit 0.3048)) \<in> set length_table \<and>
   (''inches'', Factor (float_lit 0.0254)) \<in> set length_table \<and>
   convert_units (Fin 3) (py_str ''feet'') (py_str ''inches'') (py_str ''Length'') =
     py_truediv (py_mul (Fin 3) (float_lit 0.3048)) (float_lit 0.0254)"
proof -
  have a: "(''Length'', length_table) \<in>
      {(''Length'', length_table), (''Weight'', weight_table), (''Volume'', volume_table)}"
    by simp
  have b: "(''feet'', Factor (float_lit 0.3048)) \<in> set length_table"
    by (simp add: length_table_def)
  have c: "(''inches'', Factor (float_lit 0.0254)) \<in> set length_table"
    by (simp add: length_table_def)
  from convert_units_factor a b c
  have "convert_units (Fin 3) (py_str ''feet'') (py_str ''inches'') (py_str ''Length'') =
     py_truediv (py_mul (Fin 3) (float_lit 0.3048)) (float_lit 0.0254)"
    by blast
  with a b c show ?thesis by blast
qed

lemma to_celsius_spec: "to_celsius v (py_str (scale_name a)) = spec_inverse a v"
  by (cases a) (simp_all add: to_celsius_def)

lemma from_celsius_spec: "from_celsius c (py_str (scale_name b)) = spec_forward b c"
  by (cases b) (simp_all add: from_celsius_def)

text \<open>
  Claim C2. For Temperature and scales among Celsius, Fahrenheit and Kelvin,
  \<open>convert_units\<close> first applies the inverse formula of the source scale and then the
  forward formula of the target scale; 0 Celsius is exactly 32 Fahrenheit, 100 Celsius is
  exactly 212 Fahrenheit, and 0 Celsius is exactly the float \<open>273.15\<close> Kelvin.
\<close>

theorem convert_units_temperature:
  "(\<forall>a b v.
      convert_units v (py_str (scale_name a)) (py_str (scale_name b)) (py_str ''Temperature'') =
        (case spec_inverse a v of Inl e \<Rightarrow> Inl e | Inr c \<Rightarrow> spec_forward b c)) \<and>
   convert_units (Fin 0) (py_str ''Celsius'') (py_str ''Fahrenheit'') (py_str ''Temperature'') =
     Inr (Fin 32) \<and>
   convert_units (Fin 100) (py_str ''Celsius'') (py_str ''Fahrenheit'') (py_str ''Temperature'') =
     Inr (Fin 212) \<and>
   convert_units (Fin 0) (py_str ''Celsius'') (py_str ''Kelvin'') (py_str ''Temperature'') =
     Inr (float_lit 273.15)"
proof (intro conjI allI)
  fix a b v
  show "convert_units v (py_str (scale_name a)) (py_str (scale_name b)) (py_str ''Temperature'') =
        (case spec_inverse a v of Inl e \<Rightarrow> Inl e | Inr c \<Rightarrow> spec_forward b c)"
    by (simp add: convert_units_def to_celsius_spec from_celsius_spec split: sum.split)
next
  show "convert_units (Fin 0) (py_str ''Celsius'') (py_str ''Fahrenheit'') (py_str ''Temperature'') =
     Inr (Fin 32)"
    by (simp add: convert_units_def to_celsius_def from_celsius_def round_double_32)
next
  show "convert_units (Fin 100) (py_str ''Celsius'') (py_str ''Fahrenheit'') (py_str ''Temperature'') =
     Inr (Fin 212)"
    by (simp add: convert_units_def to_celsius_def from_celsius_def
        round_double_900 round_double_180 round_double_212)
next
  show "convert_units (Fin 0) (py_str ''Celsius'') (py_str ''Kelvin'') (py_str ''Temperature'') =
     Inr (float_lit 273.15)"
    by (simp add: convert_units_def to_celsius_def from_celsius_def
        float_lit_norm round_double_273_15)
qed

lemma temperature_never_raises:
  "\<exists>r. convert_units v fu tu (py_str ''Temperature'') = Inr r"
proof -
  have a: "\<exists>c. to_celsius v fu = Inr c"
    using py_truediv_Inr[of 9] by (auto simp: to_celsius_def)
  then obtain c where c: "to_celsius v fu = Inr c" by blast
  have "\<exists>r. from_celsius c tu = Inr r"
    using py_truediv_Inr[of 5 "py_mul c (Fin 9)"] by (auto simp: from_celsius_def)
  with c show ?thesis by (auto simp: convert_units_def)
qed

lemma unknown_category_raises:
  assumes "c \<notin> {py_str ''Length'', py_str ''Weight'', py_str ''Temperature'', py_str ''Volume''}"
  shows "convert_units v fu tu c = Inl (KeyError c)"
proof -
  have "conversions c = None" using assms by (simp add: conversions_dom)
  moreover have "c \<noteq> py_str ''Temperature''" using assms by auto
  ultimately show ?thesis by (simp add: convert_units_def getitem_def)
qed

text \<open>
  Claim C3 asks that a unit outside the category's set raises a lookup failure, for
  Temperature too. An unknown category does raise \<open>KeyError\<close>
  (\<open>unknown_category_raises\<close>), but for Temperature no call raises
  (\<open>temperature_never_raises\<close>): the unit \<open>unknown_unit\<close> is silently read as Celsius, and
  5 of it are 278.15 Kelvin.
\<close>

theorem temperature_unknown_unit_is_celsius:
  "convert_units (Fin 5) (py_str ''unknown_unit'') (py_str ''Kelvin'') (py_str ''Temperature'') =
     Inr (Fin (2446633274127155 / 8796093022208)) \<and>
   convert_units (Fin 5) (py_str ''Celsius'') (py_str ''Kelvin'') (py_str ''Temperature'') =
     Inr (Fin (2446633274127155 / 8796093022208))"
  by (simp add: convert_units_def to_celsius_def from_celsius_def float_lit_norm round_double_278)

section \<open>The interpreter: what is returned and what is reported\<close>

lemmas text_defs = fenced_response_def response_without_category_def response_speed_def
  response_list_category_def response_text_value_def three_members_def quoted_def py_str_def

lemmas lex_defs = lex_outside_def is_word_char_def is_digit_def classify_word_def json_number_def
  exponent_part_def digits_value_def flush_def simple_escape_def hex_value_def unicode_escape_def

lemmas parse_defs = parse_value_def parse_key_def complete_def close_list_def close_dict_def
  open_key_def

lemma strip1: "strip_fences (py_strip fenced_response) =
   Inr (py_str (''{'' @ three_members @ '', '' @ quoted ''category'' @ '': '' @ quoted ''Length'' @ ''}''))"
  by (simp add: text_defs strip_fences_def py_strip_def py_isspace_def py_split_def list_index_def)

lemma loads1: "json_loads (py_str (''{'' @ three_members @ '', '' @ quoted ''category'' @ '': '' @ quoted ''Length'' @ ''}'')) =
   Inr (JDict (three_members_dict @ [(py_str ''category'', JStr (py_str ''Length''))]))"
  by (simp add: text_defs json_loads_def lex_defs parse_defs three_members_dict_def)


lemma round_double_5: "round_double 5 = Fin 5"
  using round_double_normal[of 2 5] by simp

lemmas validate_defs = validate_def keys_def subscript_def not_in_valid_def required_keys_def
  valid_categories_def three_members_dict_def

lemma interpret_fenced_response:
  "interpret_response fenced_response =
     Inr ([], Some (Fin 5, JStr (py_str ''feet''), JStr (py_str ''meters''), JStr (py_str ''Length'')))"
  by (simp only: interpret_response_def strip1 parse_json_def loads1 sum.case)
    (simp add: validate_defs round_double_5)

text \<open>
  Claim C7. When the service answers with the object
  \<open>{"value": 5, "from_unit": "feet", "to_unit": "meters", "category": "Length"}\<close> between
  code fences marked \<open>json\<close>, \<open>parse_with_gemini\<close> shows no error and returns
  \<open>(5.0, "feet", "meters", "Length")\<close>.
\<close>

theorem fenced_response_interpreted:
  "\<forall>input_text.
     parse_with_gemini (\<lambda>p. Inr fenced_response) input_text =
       ([], Some (Fin 5, JStr (py_str ''feet''), JStr (py_str ''meters''), JStr (py_str ''Length'')))"
  by (simp add: parse_with_gemini_def interpret_fenced_response)

text \<open>
  Claim C8. When the cleaned response parses as a JSON object that lacks one of the four
  required keys, \<open>parse_with_gemini\<close> reports the missing keys, which is not the report of a
  JSON parse failure, and returns \<open>None\<close>. The witness is a response without the key
  \<open>category\<close>.
\<close>

theorem missing_keys_reported:
  assumes "generate (prompt input_text) = Inr text"
    and "strip_fences (py_strip text) = Inr raw"
    and "json_loads raw = Inr (JDict members)"
    and "\<not> set required_keys \<subseteq> fst ` set members"
  shows "parse_with_gemini generate input_text = ([MissingKeys], None) \<and>
         (\<forall>e. MissingKeys \<noteq> FailedToParseJSON e)"
  using assms
  by (simp add: parse_with_gemini_def interpret_response_def parse_json_def validate_def keys_def)

lemma strip2: "strip_fences (py_strip response_without_category) = Inr response_without_category"
  by (simp add: text_defs strip_fences_def py_strip_def py_isspace_def)

lemma loads2: "json_loads response_without_category = Inr (JDict three_members_dict)"
  by (simp add: text_defs json_loads_def lex_defs parse_defs three_members_dict_def)

theorem missing_keys_reported_witness:
  "(\<lambda>p. Inr response_without_category) (prompt []) = Inr response_without_category \<and>
   strip_fences (py_strip response_without_category) = Inr response_without_category \<and>
   json_loads response_without_category = Inr (JDict three_members_dict) \<and>
   \<not> set required_keys \<subseteq> fst ` set three_members_dict \<and>
   parse_with_gemini (\<lambda>p. Inr response_without_category) [] = ([MissingKeys], None)"
proof -
  have a: "(\<lambda>p. Inr response_without_category) (prompt []) = Inr response_without_category"
    by simp
  have d: "\<not> set required_keys \<subseteq> fst ` set three_members_dict"
    by (simp add: required_keys_def three_members_dict_def)
  from missing_keys_reported[OF a strip2 loads2 d] a strip2 loads2 d show ?thesis by blast
qed

lemma invalid_category_reported:
  assumes "generate (prompt input_text) = Inr text"
    and "strip_fences (py_strip text) = Inr raw"
    and "json_loads raw = Inr (JDict members)"
    and "set required_keys \<subseteq> fst ` set members"
    and "map_of members (py_str ''category'') = Some cat"
    and "not_in_valid cat = Inr True"
  shows "parse_with_gemini generate input_text = ([InvalidCategory cat valid_categories], None)"
  using assms
  by (simp add: parse_with_gemini_def interpret_response_def parse_json_def validate_def keys_def
      subscript_def)

lemma strip3: "strip_fences (py_strip response_speed) = Inr response_speed"
  by (simp add: text_defs strip_fences_def py_strip_def py_isspace_def)

lemma loads3: "json_loads response_speed =
    Inr (JDict (three_members_dict @ [(py_str ''category'', JStr (py_str ''Speed''))]))"
  by (simp add: text_defs json_loads_def lex_defs parse_defs three_members_dict_def)

lemma speed_reported:
  "parse_with_gemini (\<lambda>p. Inr response_speed) input_text =
     ([InvalidCategory (JStr (py_str ''Speed'')) valid_categories], None)"
proof -
  have a: "(\<lambda>p. Inr response_speed) (prompt input_text) = Inr response_speed" by simp
  show ?thesis
    by (rule invalid_category_reported[OF a strip3 loads3])
      (simp_all add: validate_defs)
qed

lemma strip4: "strip_fences (py_strip response_list_category) = Inr response_list_category"
  by (simp add: text_defs strip_fences_def py_strip_def py_isspace_def)

lemma loads4: "json_loads response_list_category =
    Inr (JDict (three_members_dict @ [(py_str ''category'', JList [])]))"
  by (simp add: text_defs json_loads_def lex_defs parse_defs three_members_dict_def)

text \<open>
  Claim C9 asks that every category outside the four names is reported as an invalid
  category, with the value and the valid set. That holds when the category is a string, a
  number, a boolean or null (\<open>invalid_category_reported\<close>, and \<open>speed_reported\<close> for
  \<open>"Speed"\<close>). A category that is a JSON array cannot be hashed by the membership test of
  line 118: the \<open>TypeError\<close> reaches the outer handler and is shown as a Gemini API error.
\<close>

theorem list_category_reported_as_api_error:
  "parse_with_gemini (\<lambda>p. Inr response_list_category) input_text =
     ([GeminiAPIError TypeError], None)"
  by (simp add: parse_with_gemini_def interpret_response_def strip4 parse_json_def loads4
      validate_defs)

lemma strip5: "strip_fences (py_strip response_text_value) = Inr response_text_value"
  by (simp add: text_defs strip_fences_def py_strip_def py_isspace_def)

lemma loads5: "json_loads response_text_value =
    Inr (JDict [(py_str ''value'', JStr (py_str ''abc'')),
      (py_str ''from_unit'', JStr (py_str ''feet'')),
      (py_str ''to_unit'', JStr (py_str ''meters'')),
      (py_str ''category'', JStr (py_str ''Length''))])"
  by (simp add: text_defs json_loads_def lex_defs parse_defs)

lemma float_abc: "float_of_str (py_str ''abc'') = None"
  by (simp add: float_of_str_def py_str_def to_ascii_def is_ascii_space_def to_lower_def
      float_decimal_def is_group_char_def is_digit_def float_exponent_def)

text \<open>
  Claim C6 asks for a numeric-conversion error of its own kind. A \<open>value\<close> field
  \<open>"abc"\<close> makes \<open>float\<close> raise \<open>ValueError\<close> inside the inner \<open>try\<close>, whose handler takes
  \<open>JSONDecodeError\<close> only; the outer handler shows it as a Gemini API error, exactly as
  it shows a \<open>ValueError\<close> raised by the service.
\<close>

theorem text_value_reported_as_api_error:
  "parse_with_gemini (\<lambda>p. Inr response_text_value) input_text =
     ([GeminiAPIError ValueError], None) \<and>
   parse_with_gemini (\<lambda>p. Inl ValueError) input_text = ([GeminiAPIError ValueError], None)"
  by (simp add: parse_with_gemini_def interpret_response_def strip5 parse_json_def loads5
      validate_defs float_abc)

text \<open>
  Claim C10. Whatever the service does and whatever text it returns,
  \<open>parse_with_gemini\<close> returns \<open>None\<close>, or it shows no error and returns a tuple whose first
  component is a float and whose last component is one of the four category names. No
  exception leaves it: every raise of the model ends in the outer handler.
\<close>

theorem parse_with_gemini_outcome:
  "\<forall>generate input_text.
     (\<exists>errs. parse_with_gemini generate input_text = (errs, None)) \<or>
     (\<exists>x fu tu c. parse_with_gemini generate input_text = ([], Some (x, fu, tu, JStr c)) \<and>
        c \<in> set valid_categories)"
  by (auto simp: parse_with_gemini_def interpret_response_def parse_json_def validate_def
      not_in_valid_def split: sum.splits json.splits if_splits bool.splits)

end
